theory Spec2Isabelle
  imports Main "HOL-Library.Word" "HOL-Library.Char_ord" "HOL-Library.List_Lexorder"
begin

section \<open>Go values\<close>

text \<open>
  A Go \<^verbatim>\<open>string\<close> is a sequence of bytes and \<^verbatim>\<open>len\<close> counts bytes: it is a
  \<^typ>\<open>string\<close> here and \<^verbatim>\<open>len\<close> is \<^const>\<open>length\<close>.

  A Go slice is either \<^verbatim>\<open>nil\<close> (the zero value) or holds elements. Both have
  \<^verbatim>\<open>len\<close> zero when empty and \<^verbatim>\<open>range\<close> visits nothing, but
  \<^verbatim>\<open>encoding/json\<close> writes the first as \<^verbatim>\<open>null\<close> and the second as
  \<^verbatim>\<open>[]\<close>. So a slice is an optional list, \<open>None\<close> being \<^verbatim>\<open>nil\<close>.
  A \<^verbatim>\<open>map[string]string\<close> is an optional association list with distinct keys.
\<close>

type_synonym 'a slice = "'a list option"

type_synonym gomap = "(string \<times> string) list option"

definition elems :: "'a slice \<Rightarrow> 'a list" where
  "elems s = (case s of None \<Rightarrow> [] | Some xs \<Rightarrow> xs)"

definition len :: "'a slice \<Rightarrow> nat" where
  "len s = length (elems s)"

text \<open>\<^verbatim>\<open>strings.Join(elems, sep)\<close>.\<close>

fun strings_Join :: "string list \<Rightarrow> string \<Rightarrow> string" where
  "strings_Join [] sep = []"
| "strings_Join [x] sep = x"
| "strings_Join (x # y # ys) sep = x @ sep @ strings_Join (y # ys) sep"

text \<open>The decimal rendering used by \<^verbatim>\<open>%d\<close> and, for integers, by \<^verbatim>\<open>%v\<close>.\<close>

definition digit :: "nat \<Rightarrow> char" where
  "digit d = char_of (48 + d)"

fun fmt_nat :: "nat \<Rightarrow> string" where
  "fmt_nat n = (if n < 10 then [digit n] else fmt_nat (n div 10) @ [digit (n mod 10)])"

declare fmt_nat.simps [simp del]

definition fmt_int :: "int \<Rightarrow> string" where
  "fmt_int i = (if i < 0 then CHR ''-'' # fmt_nat (nat (- i)) else fmt_nat (nat i))"


section \<open>The send request\<close>

record EmailAddress =
  Email :: string
  Name :: string

record EmailAttachment =
  Content :: string
  AttachType :: string
  Filename :: string
  Disposition :: string
  ContentID :: string

record SendEmailRequest =
  From :: EmailAddress
  To :: "EmailAddress slice"
  Cc :: "EmailAddress slice"
  Bcc :: "EmailAddress slice"
  Attachments :: "EmailAttachment slice"
  Headers :: gomap
  CustomVars :: gomap
  Subject :: string
  Text :: string
  HTML :: string
  Category :: string

record SendEmailResponse =
  Success :: bool
  MessageIDs :: "string slice"

text \<open>The zero values \<^verbatim>\<open>EmailAddress{}\<close>, \<^verbatim>\<open>EmailAttachment{}\<close> and
  \<^verbatim>\<open>SendEmailRequest{}\<close>.\<close>

definition zero_EmailAddress :: EmailAddress where
  "zero_EmailAddress = \<lparr>Email = [], Name = []\<rparr>"

definition zero_EmailAttachment :: EmailAttachment where
  "zero_EmailAttachment =
     \<lparr>Content = [], AttachType = [], Filename = [], Disposition = [], ContentID = []\<rparr>"

definition zero_SendEmailRequest :: SendEmailRequest where
  "zero_SendEmailRequest =
     \<lparr>From = zero_EmailAddress, To = None, Cc = None, Bcc = None, Attachments = None,
      Headers = None, CustomVars = None, Subject = [], Text = [], HTML = [], Category = []\<rparr>"


section \<open>Errors\<close>

text \<open>
  An error made outside this repository (by \<^verbatim>\<open>net/http\<close>, \<^verbatim>\<open>net/url\<close>,
  \<^verbatim>\<open>io\<close> or \<^verbatim>\<open>encoding/json\<close>) is opaque: only its message is kept.
\<close>

datatype ext_error = ExtError string

text \<open>\<^verbatim>\<open>http.Header\<close> with \<^verbatim>\<open>Set\<close> and \<^verbatim>\<open>Get\<close> at the canonical
  keys the client uses; \<^verbatim>\<open>Get\<close> of an absent key is the empty string.\<close>

type_synonym header = "string \<rightharpoonup> string"

definition header_Set :: "header \<Rightarrow> string \<Rightarrow> string \<Rightarrow> header" where
  "header_Set h k v = h(k \<mapsto> v)"

definition header_Get :: "header \<Rightarrow> string \<Rightarrow> string" where
  "header_Get h k = (case h k of None \<Rightarrow> [] | Some v \<Rightarrow> v)"

text \<open>
  \<^verbatim>\<open>http.Response\<close>: the status code, the headers, and what \<^verbatim>\<open>io.ReadAll\<close>
  gives on the body (the bytes, or a read error).
\<close>

record http_Response =
  StatusCode :: int
  RespHeader :: header
  RespBody :: "ext_error + string"

text \<open>
  Modelled from the spec: the declaration of \<^verbatim>\<open>ErrorResponse\<close> is not among the
  source files. The spec describes it as a structured error that wraps the raw HTTP
  response plus a best-effort decoded message, so it is the response and the message,
  and JSON decoding fills the message only.
\<close>

record ErrorResponse =
  Response :: http_Response
  Message :: string

text \<open>
  The errors a call can return: \<^verbatim>\<open>errors.New\<close>/\<^verbatim>\<open>fmt.Errorf\<close> with their
  message, an \<^verbatim>\<open>*ErrorResponse\<close>, or an error passed through from a library.
  A run-time panic (a nil pointer dereference) is the value \<open>Panic\<close>; every caller in
  the model passes it on unchanged, as unwinding would.
\<close>

datatype error =
    ErrorsNew string
  | ErrResponse ErrorResponse
  | Ext ext_error
  | Panic string


section \<open>Validation of a send request\<close>

text \<open>The loop over \<^verbatim>\<open>r.To\<close>: it returns at the first entry with an empty email.\<close>

fun to_loop :: "EmailAddress list \<Rightarrow> error option" where
  "to_loop [] = None"
| "to_loop (v # vs) =
     (if Email v = [] then Some (ErrorsNew '''email' is required in 'to' address'')
      else to_loop vs)"

text \<open>The loop over \<^verbatim>\<open>r.Attachments\<close>, appending to \<^verbatim>\<open>errMsg\<close>.\<close>

fun attachments_loop :: "EmailAttachment list \<Rightarrow> string list \<Rightarrow> string list" where
  "attachments_loop [] errMsg = errMsg"
| "attachments_loop (v # vs) errMsg =
     (let errMsg1 = (if Content v = [] then errMsg @ ['''content' is required in attachment'']
                     else errMsg);
          errMsg2 = (if Filename v = [] then errMsg1 @ ['''filename' is required in attachment'']
                     else errMsg1)
      in attachments_loop vs errMsg2)"

definition categoryMaxLength :: nat where
  "categoryMaxLength = 255"

definition attachments_check :: "SendEmailRequest \<Rightarrow> error option" where
  "attachments_check r =
     (if len (Attachments r) > 0 then
        (let errMsg = attachments_loop (elems (Attachments r)) []
         in if length errMsg > 0 then Some (ErrorsNew (strings_Join errMsg ''; '')) else None)
      else None)"

definition validate :: "SendEmailRequest \<Rightarrow> error option" where
  "validate r =
     (if Email (From r) = [] then Some (ErrorsNew '''from' address is required'')
      else if len (To r) = 0 then Some (ErrorsNew '''to' address is required'')
      else case to_loop (elems (To r)) of
        Some e \<Rightarrow> Some e
      | None \<Rightarrow>
         (case attachments_check r of
            Some e \<Rightarrow> Some e
          | None \<Rightarrow>
             if Subject r = [] then Some (ErrorsNew '''subject' is required'')
             else if Text r = [] \<and> HTML r = []
               then Some (ErrorsNew ''one of 'text' or 'html' is required'')
             else if length (Category r) > categoryMaxLength
               then Some (ErrorsNew ('''category' is greater than ''
                                      @ fmt_int (int categoryMaxLength) @ '' chars''))
             else None))"


section \<open>Serialising a send request\<close>

text \<open>
  \<^verbatim>\<open>encoding/json\<close> on the structs above. No field tag carries
  \<^verbatim>\<open>omitempty\<close>, so every field is written, in declaration order, under the name
  of its tag: a string as a quoted literal, a nil slice or map as \<^verbatim>\<open>null\<close>, a slice
  as an array, a map as an object with its keys sorted bytewise. How the library escapes
  the inside of a string literal is the parameter \<open>esc\<close>.
\<close>

definition json_string :: "(string \<Rightarrow> string) \<Rightarrow> string \<Rightarrow> string" where
  \<open>json_string esc s = ''"'' @ esc s @ ''"''\<close>

definition json_slice :: "('a \<Rightarrow> string) \<Rightarrow> 'a slice \<Rightarrow> string" where
  "json_slice f s =
     (case s of None \<Rightarrow> ''null''
      | Some xs \<Rightarrow> ''['' @ strings_Join (map f xs) '','' @ '']'')"

definition json_map :: "(string \<Rightarrow> string) \<Rightarrow> gomap \<Rightarrow> string" where
  "json_map esc m =
     (case m of None \<Rightarrow> ''null''
      | Some kvs \<Rightarrow>
          ''{'' @ strings_Join
                   (map (\<lambda>(k, v). json_string esc k @ '':'' @ json_string esc v)
                        (sort_key fst kvs)) '',''
          @ ''}'')"

definition json_EmailAddress :: "(string \<Rightarrow> string) \<Rightarrow> EmailAddress \<Rightarrow> string" where
  \<open>json_EmailAddress esc a =
     ''{"email":'' @ json_string esc (Email a) @ '',"name":'' @ json_string esc (Name a) @ ''}''\<close>

definition json_EmailAttachment :: "(string \<Rightarrow> string) \<Rightarrow> EmailAttachment \<Rightarrow> string" where
  \<open>json_EmailAttachment esc a =
     ''{"content":'' @ json_string esc (Content a)
     @ '',"type":'' @ json_string esc (AttachType a)
     @ '',"filename":'' @ json_string esc (Filename a)
     @ '',"disposition":'' @ json_string esc (Disposition a)
     @ '',"content_id":'' @ json_string esc (ContentID a) @ ''}''\<close>

definition json_Marshal_SendEmailRequest :: "(string \<Rightarrow> string) \<Rightarrow> SendEmailRequest \<Rightarrow> string" where
  \<open>json_Marshal_SendEmailRequest esc r =
     ''{"from":'' @ json_EmailAddress esc (From r)
     @ '',"to":'' @ json_slice (json_EmailAddress esc) (To r)
     @ '',"cc":'' @ json_slice (json_EmailAddress esc) (Cc r)
     @ '',"bcc":'' @ json_slice (json_EmailAddress esc) (Bcc r)
     @ '',"attachments":'' @ json_slice (json_EmailAttachment esc) (Attachments r)
     @ '',"headers":'' @ json_map esc (Headers r)
     @ '',"custom_variables":'' @ json_map esc (CustomVars r)
     @ '',"subject":'' @ json_string esc (Subject r)
     @ '',"text":'' @ json_string esc (Text r)
     @ '',"html":'' @ json_string esc (HTML r)
     @ '',"category":'' @ json_string esc (Category r) @ ''}''\<close>

text \<open>\<^verbatim>\<open>json.NewEncoder(buf).Encode(body)\<close> writes the marshalled value and a newline.\<close>

definition json_Encode :: "('b \<Rightarrow> ext_error + string) \<Rightarrow> 'b \<Rightarrow> ext_error + string" where
  "json_Encode marshal body =
     (case marshal body of Inl e \<Rightarrow> Inl e | Inr s \<Rightarrow> Inr (s @ [CHR 0x0A]))"


section \<open>The transport core\<close>

text \<open>
  \<^verbatim>\<open>url.URL\<close> with the fields the client uses. \<^verbatim>\<open>String\<close> is given for a URL
  without user, query or fragment whose path needs no escaping.
\<close>

record URL =
  Scheme :: string
  Host :: string
  Path :: string

definition URL_String :: "URL \<Rightarrow> string" where
  "URL_String u = Scheme u @ ''://'' @ Host u @ Path u"

text \<open>\<^verbatim>\<open>http.Client\<close>: its timeout in seconds, zero for none.\<close>

record http_Client =
  Timeout :: nat

text \<open>
  The client. \<^verbatim>\<open>baseURL\<close> is a \<^verbatim>\<open>*url.URL\<close>: an address in the store of
  URLs, or \<open>None\<close> for \<^verbatim>\<open>nil\<close>. \<^verbatim>\<open>httpClient\<close> is a pointer too, to a value
  that is never written.
\<close>

record client =
  apiKey :: string
  baseURL :: "nat option"
  userAgent :: string
  httpClient :: "http_Client option"

text \<open>
  \<^verbatim>\<open>http.Request\<close>. Its body is \<^verbatim>\<open>nil\<close>, the sentinel \<^verbatim>\<open>http.NoBody\<close>
  that \<^verbatim>\<open>http.NewRequest\<close> puts in place of an empty buffer, or the bytes to send.
\<close>

datatype req_body = NilBody | NoBody | Bytes string

record http_Request =
  Method :: string
  ReqURL :: string
  Header :: header
  Body :: req_body

text \<open>
  What lies outside a call: the store of \<^verbatim>\<open>url.URL\<close> objects (an address is an
  index) and the requests handed to the network so far, in order.
\<close>

record world =
  urls :: "URL list"
  wire :: "http_Request list"

text \<open>
  What the libraries and the network do: the platform strings of \<^verbatim>\<open>runtime\<close>,
  \<^verbatim>\<open>url.Parse\<close>, whether \<^verbatim>\<open>http.NewRequest\<close> can parse a URL string, the
  answer of the network to a request, the escaping of JSON string literals, and
  \<^verbatim>\<open>json.Unmarshal\<close> into an \<^verbatim>\<open>ErrorResponse\<close> (from the bytes and the
  current message to an error, if any, and the message left behind), and the JSON decoding
  of a \<^verbatim>\<open>SendEmailResponse\<close> (from the bytes and the current value).
\<close>

record env =
  GOOS :: string
  GOARCH :: string
  go_Version :: string
  url_Parse :: "string \<Rightarrow> ext_error + URL"
  url_ok :: "string \<Rightarrow> bool"
  RoundTrip :: "http_Request \<Rightarrow> ext_error + http_Response"
  json_escape :: "string \<Rightarrow> string"
  json_Unmarshal_ErrorResponse :: "string \<Rightarrow> string \<Rightarrow> ext_error option \<times> string"
  json_Decode_SendEmailResponse :: "string \<Rightarrow> SendEmailResponse \<Rightarrow> ext_error + SendEmailResponse"

definition libVersion :: string where
  "libVersion = ''0.1.2''"

definition sendingAPIURL :: string where
  "sendingAPIURL = ''https://send.api.mailtrap.io/''"

definition sandboxAPIURL :: string where
  "sandboxAPIURL = ''https://sandbox.api.mailtrap.io/''"

definition apiSuffix :: string where
  "apiSuffix = ''api''"

definition defaultAccept :: string where
  "defaultAccept = ''application/json''"

definition userAgent_var :: "env \<Rightarrow> string" where
  "userAgent_var E =
     ''mailtrap-go/'' @ libVersion @ '' ('' @ GOOS E @ '' '' @ GOARCH E @ '') go/'' @ go_Version E"

definition deref :: "world \<Rightarrow> nat option \<Rightarrow> URL option" where
  "deref w p =
     (case p of None \<Rightarrow> None
      | Some a \<Rightarrow> if a < length (urls w) then Some (urls w ! a) else None)"

text \<open>
  \<^verbatim>\<open>getClient\<close>: \<^verbatim>\<open>url.Parse\<close> allocates the URL, whose path gets the suffix.
\<close>

definition getClient :: "env \<Rightarrow> string \<Rightarrow> string \<Rightarrow> world \<Rightarrow> (error + client) \<times> world" where
  "getClient E key base w =
     (case url_Parse E base of
        Inl e \<Rightarrow> (Inl (Ext e), w)
      | Inr u \<Rightarrow>
          (Inr \<lparr>apiKey = key, baseURL = Some (length (urls w)),
                userAgent = userAgent_var E, httpClient = Some \<lparr>Timeout = 30\<rparr>\<rparr>,
           w\<lparr>urls := urls w @ [u\<lparr>Path := Path u @ apiSuffix\<rparr>]\<rparr>))"

text \<open>
  \<^verbatim>\<open>http.NewRequest\<close>: an empty method means GET, the method must be a token, the
  URL must parse; an empty buffer becomes \<^verbatim>\<open>http.NoBody\<close>. The new request has
  no header.
\<close>

definition isTokenChar :: "char \<Rightarrow> bool" where
  "isTokenChar c =
     (c \<in> set (''!#$%&*+-.^_`|~0123456789''
               @ ''abcdefghijklmnopqrstuvwxyz'' @ ''ABCDEFGHIJKLMNOPQRSTUVWXYZ'')
      \<or> c = CHR 0x27)"

definition validMethod :: "string \<Rightarrow> bool" where
  "validMethod m = (m \<noteq> [] \<and> list_all isTokenChar m)"

definition http_NewRequest :: "env \<Rightarrow> string \<Rightarrow> string \<Rightarrow> string option \<Rightarrow> ext_error + http_Request" where
  "http_NewRequest E method url body =
     (let m = (if method = [] then ''GET'' else method)
      in if \<not> validMethod m then Inl (ExtError ''net/http: invalid method'')
         else if \<not> url_ok E url then Inl (ExtError ''parse: invalid URL'')
         else Inr \<lparr>Method = m, ReqURL = url, Header = Map.empty,
                   Body = (case body of None \<Rightarrow> NilBody
                           | Some b \<Rightarrow> if b = [] then NoBody else Bytes b)\<rparr>)"

text \<open>
  \<^verbatim>\<open>NewRequest\<close>. \<^verbatim>\<open>u := c.baseURL\<close> copies the pointer, so the assignment
  to \<^verbatim>\<open>u.Path\<close> writes the URL the client holds.
\<close>

definition set_headers :: "client \<Rightarrow> bool \<Rightarrow> http_Request \<Rightarrow> http_Request" where
  "set_headers c has_body req =
     (let h0 = (if has_body then header_Set (Header req) ''Content-Type'' ''application/json''
                else Header req);
          h1 = header_Set h0 ''Accept'' defaultAccept;
          h2 = header_Set h1 ''User-Agent'' (userAgent c);
          h3 = header_Set h2 ''Authorization'' (''Bearer '' @ apiKey c)
      in req\<lparr>Header := h3\<rparr>)"

definition NewRequest ::
  "env \<Rightarrow> ('b \<Rightarrow> ext_error + string) \<Rightarrow> client \<Rightarrow> string \<Rightarrow> string \<Rightarrow> 'b option \<Rightarrow> world
     \<Rightarrow> (error + http_Request) \<times> world" where
  "NewRequest E marshal c method path body w =
     (case baseURL c of
        None \<Rightarrow> (Inl (Panic ''nil pointer dereference''), w)
      | Some u \<Rightarrow>
         (case deref w (Some u) of
            None \<Rightarrow> (Inl (Panic ''nil pointer dereference''), w)
          | Some base \<Rightarrow>
             (let w1 = w\<lparr>urls := (urls w)[u := base\<lparr>Path := Path base @ path\<rparr>]\<rparr>;
                  url = URL_String (urls w1 ! u)
              in if method = ''GET'' \<or> method = ''HEAD'' \<or> method = ''OPTIONS'' then
                   (case http_NewRequest E method url None of
                      Inl e \<Rightarrow> (Inl (Ext e), w1)
                    | Inr req \<Rightarrow> (Inr (set_headers c (body \<noteq> None) req), w1))
                 else
                   (case (case body of None \<Rightarrow> Inr []
                          | Some b \<Rightarrow> json_Encode marshal b) of
                      Inl e \<Rightarrow> (Inl (Ext e), w1)
                    | Inr buf \<Rightarrow>
                       (case http_NewRequest E method url (Some buf) of
                          Inl e \<Rightarrow> (Inl (Ext e), w1)
                        | Inr req \<Rightarrow> (Inr (set_headers c (body \<noteq> None) req), w1))))))"

text \<open>
  \<^verbatim>\<open>checkResponse\<close>: a status outside 200..299 is an error that holds the
  response. When the body was read and is not empty it is unmarshalled into the error;
  when that fails the body becomes the message.
\<close>

definition checkResponse :: "env \<Rightarrow> http_Response \<Rightarrow> error option" where
  "checkResponse E r =
     (if StatusCode r \<ge> 200 \<and> StatusCode r \<le> 299 then None
      else
        (let errResponse = \<lparr>Response = r, Message = []\<rparr>
         in case RespBody r of
              Inl e \<Rightarrow> Some (ErrResponse errResponse)
            | Inr data \<Rightarrow>
                if length data > 0 then
                  (case json_Unmarshal_ErrorResponse E data (Message errResponse) of
                     (None, m) \<Rightarrow> Some (ErrResponse (errResponse\<lparr>Message := m\<rparr>))
                   | (Some e, m) \<Rightarrow> Some (ErrResponse (errResponse\<lparr>Message := data\<rparr>)))
                else Some (ErrResponse errResponse)))"

text \<open>
  The destination \<^verbatim>\<open>v interface{}\<close> of \<^verbatim>\<open>Do\<close> and \<^verbatim>\<open>decode\<close>:
  \<^verbatim>\<open>nil\<close>, a \<^verbatim>\<open>*string\<close>, or a pointer to a value of another type, each pointer
  with what it points to. A call returns the destination as it leaves it. What a failed
  JSON decoding leaves in a typed destination is not modelled: it is returned as it was.
  \<open>jd\<close> is \<^verbatim>\<open>json.NewDecoder(body).Decode(v)\<close> for the type of the destination.
\<close>

datatype 'v dest = NilDest | StringPtr string | TypedPtr 'v

definition decode ::
  "(string \<Rightarrow> 'v \<Rightarrow> ext_error + 'v) \<Rightarrow> 'v dest \<Rightarrow> (ext_error + string) option \<Rightarrow> string
     \<Rightarrow> error option \<times> 'v dest" where
  "decode jd v body acceptHeader =
     (case body of
        None \<Rightarrow> (None, v)
      | Some rd \<Rightarrow>
         (case v of
            StringPtr s \<Rightarrow>
              (case rd of Inl e \<Rightarrow> (Some (Ext e), v)
               | Inr data \<Rightarrow> (None, StringPtr data))
          | TypedPtr x \<Rightarrow>
              if acceptHeader = defaultAccept then
                (case rd of Inl e \<Rightarrow> (Some (Ext e), v)
                 | Inr data \<Rightarrow>
                    (case jd data x of Inl e \<Rightarrow> (Some (Ext e), v)
                     | Inr y \<Rightarrow> (None, TypedPtr y)))
              else (Some (ErrorsNew ''decode() undefined response type''), v)
          | NilDest \<Rightarrow> (Some (ErrorsNew ''decode() undefined response type''), v)))"

text \<open>
  \<^verbatim>\<open>Do\<close>. The request goes on the wire. The deferred function assigns the error of
  \<^verbatim>\<open>Close\<close> to a local variable after the results are fixed, so it changes
  nothing that is returned.
\<close>

definition Do ::
  "env \<Rightarrow> (string \<Rightarrow> 'v \<Rightarrow> ext_error + 'v) \<Rightarrow> client \<Rightarrow> http_Request \<Rightarrow> 'v dest \<Rightarrow> world
     \<Rightarrow> (http_Response option \<times> error option \<times> 'v dest) \<times> world" where
  "Do E jd c req v w =
     (case httpClient c of
        None \<Rightarrow> ((None, Some (Panic ''nil pointer dereference''), v), w)
      | Some hc \<Rightarrow>
         (let w1 = w\<lparr>wire := wire w @ [req]\<rparr>
          in case RoundTrip E req of
               Inl e \<Rightarrow> ((None, Some (Ext e), v), w1)
             | Inr resp \<Rightarrow>
                (case checkResponse E resp of
                   Some e \<Rightarrow> ((Some resp, Some e, v), w1)
                 | None \<Rightarrow>
                    if v \<noteq> NilDest then
                      (case decode jd v (Some (RespBody resp)) (header_Get (Header req) ''Accept'') of
                         (Some e, v') \<Rightarrow> ((Some resp, Some e, v'), w1)
                       | (None, v') \<Rightarrow> ((Some resp, None, v'), w1))
                    else ((Some resp, None, v), w1))))"


section \<open>The sending clients\<close>

record ProductionSendingClient =
  pclient :: client

record SandboxSendingClient =
  sclient :: client
  inboxID :: "64 word"

definition zero_SendEmailResponse :: SendEmailResponse where
  "zero_SendEmailResponse = \<lparr>Success = False, MessageIDs = None\<rparr>"

definition NewSendingClient :: "env \<Rightarrow> string \<Rightarrow> world \<Rightarrow> (error + ProductionSendingClient) \<times> world" where
  "NewSendingClient E key w =
     (case getClient E key sendingAPIURL w of
        (Inl e, w1) \<Rightarrow> (Inl e, w1)
      | (Inr c, w1) \<Rightarrow> (Inr \<lparr>pclient = c\<rparr>, w1))"

definition NewSandboxSendingClient ::
  "env \<Rightarrow> string \<Rightarrow> 64 word \<Rightarrow> world \<Rightarrow> (error + SandboxSendingClient) \<times> world" where
  "NewSandboxSendingClient E key ident w =
     (case getClient E key sandboxAPIURL w of
        (Inl e, w1) \<Rightarrow> (Inl e, w1)
      | (Inr c, w1) \<Rightarrow> (Inr \<lparr>sclient = c, inboxID = ident\<rparr>, w1))"

text \<open>
  \<^verbatim>\<open>setBaseURL\<close>, used by the tests: the client points to another URL. The
  interface declares it on a \<^verbatim>\<open>*url.URL\<close>, as the field is declared; the methods in
  the sending file take a \<^verbatim>\<open>url.URL\<close> value.
\<close>

definition setBaseURL :: "client \<Rightarrow> nat option \<Rightarrow> client" where
  "setBaseURL c u = c\<lparr>baseURL := u\<rparr>"

text \<open>The body of a send is the request itself; marshalling it cannot fail.\<close>

definition marshal_request :: "env \<Rightarrow> SendEmailRequest \<Rightarrow> ext_error + string" where
  "marshal_request E r = Inr (json_Marshal_SendEmailRequest (json_escape E) r)"

definition pointee :: "'v dest \<Rightarrow> 'v option" where
  "pointee v = (case v of TypedPtr x \<Rightarrow> Some x | _ \<Rightarrow> None)"

type_synonym send_result = "SendEmailResponse option \<times> http_Response option \<times> error option"

definition ProductionSend ::
  "env \<Rightarrow> ProductionSendingClient \<Rightarrow> SendEmailRequest option \<Rightarrow> world \<Rightarrow> send_result \<times> world" where
  "ProductionSend E sc request w =
     (case request of
        None \<Rightarrow> ((None, None, Some (ErrorsNew ''request `SendEmailRequest` is mandatory'')), w)
      | Some r \<Rightarrow>
         (case validate r of
            Some err \<Rightarrow> ((None, None, Some err), w)
          | None \<Rightarrow>
             (case NewRequest E (marshal_request E) (pclient sc) ''POST'' ''/send'' (Some r) w of
                (Inl err, w1) \<Rightarrow> ((None, None, Some err), w1)
              | (Inr req, w1) \<Rightarrow>
                 (case Do E (json_Decode_SendEmailResponse E) (pclient sc) req
                          (TypedPtr zero_SendEmailResponse) w1 of
                    ((res, Some err, v), w2) \<Rightarrow> ((None, res, Some err), w2)
                  | ((res, None, v), w2) \<Rightarrow> ((pointee v, res, None), w2)))))"

definition SandboxSend ::
  "env \<Rightarrow> SandboxSendingClient \<Rightarrow> SendEmailRequest option \<Rightarrow> world \<Rightarrow> send_result \<times> world" where
  "SandboxSend E sc request w =
     (case request of
        None \<Rightarrow> ((None, None, Some (ErrorsNew ''request `SendEmailRequest` is mandatory'')), w)
      | Some r \<Rightarrow>
         (case validate r of
            Some err \<Rightarrow> ((None, None, Some err), w)
          | None \<Rightarrow>
             (case NewRequest E (marshal_request E) (sclient sc) ''POST''
                     (''/send/'' @ fmt_int (sint (inboxID sc))) (Some r) w of
                (Inl err, w1) \<Rightarrow> ((None, None, Some err), w1)
              | (Inr req, w1) \<Rightarrow>
                 (case Do E (json_Decode_SendEmailResponse E) (sclient sc) req
                          (TypedPtr zero_SendEmailResponse) w1 of
                    ((res, Some err, v), w2) \<Rightarrow> ((None, res, Some err), w2)
                  | ((res, None, v), w2) \<Rightarrow> ((pointee v, res, None), w2)))))"


section \<open>The validation rules as the specification words them\<close>

text \<open>
  What one attachment contributes to the accumulated messages: the content message when
  its content is missing, then the filename message when its filename is missing.
\<close>

definition attachment_problems :: "EmailAttachment \<Rightarrow> string list" where
  "attachment_problems a =
     (if Content a = [] then ['''content' is required in attachment''] else [])
     @ (if Filename a = [] then ['''filename' is required in attachment''] else [])"

text \<open>
  The seven rules in their fixed order: the error of the first rule that is violated,
  or none.
\<close>

definition first_violation :: "SendEmailRequest \<Rightarrow> error option" where
  "first_violation r =
     (if Email (From r) = [] then Some (ErrorsNew '''from' address is required'')
      else if elems (To r) = [] then Some (ErrorsNew '''to' address is required'')
      else if \<exists>v\<in>set (elems (To r)). Email v = []
        then Some (ErrorsNew '''email' is required in 'to' address'')
      else if \<exists>a\<in>set (elems (Attachments r)). Content a = [] \<or> Filename a = []
        then Some (ErrorsNew (strings_Join
               (concat (map attachment_problems (elems (Attachments r)))) ''; ''))
      else if Subject r = [] then Some (ErrorsNew '''subject' is required'')
      else if Text r = [] \<and> HTML r = []
        then Some (ErrorsNew ''one of 'text' or 'html' is required'')
      else if length (Category r) > 255
        then Some (ErrorsNew '''category' is greater than 255 chars'')
      else None)"


section \<open>Requests of the test suite\<close>

text \<open>The requests the tests of \<^verbatim>\<open>Send\<close> build, one for each rejected shape.\<close>

definition addr :: "string \<Rightarrow> EmailAddress" where
  "addr e = \<lparr>Email = e, Name = []\<rparr>"

definition req_notValidEmailFrom :: SendEmailRequest where
  "req_notValidEmailFrom = zero_SendEmailRequest\<lparr>To := Some [addr ''test@example.com'']\<rparr>"

definition req_notValidEmailTo :: SendEmailRequest where
  "req_notValidEmailTo = zero_SendEmailRequest\<lparr>From := addr ''test@example.com''\<rparr>"

definition req_emptyEmailTo :: SendEmailRequest where
  "req_emptyEmailTo =
     zero_SendEmailRequest\<lparr>From := addr ''test@example.com'', To := Some [addr []]\<rparr>"

definition req_notValidAttachment :: SendEmailRequest where
  "req_notValidAttachment =
     zero_SendEmailRequest\<lparr>From := addr ''test@example.com'',
       To := Some [addr ''email@example.com''], Attachments := Some [zero_EmailAttachment]\<rparr>"

definition req_missedSubject :: SendEmailRequest where
  "req_missedSubject =
     zero_SendEmailRequest\<lparr>From := addr ''test@example.com'',
       To := Some [addr ''email@example.com''], Subject := []\<rparr>"

definition req_textOrHTMLRequired :: SendEmailRequest where
  "req_textOrHTMLRequired =
     zero_SendEmailRequest\<lparr>From := addr ''test@example.com'',
       To := Some [addr ''email@example.com''], Subject := ''Subj.''\<rparr>"

definition req_categoryTooLong :: SendEmailRequest where
  "req_categoryTooLong =
     zero_SendEmailRequest\<lparr>From := addr ''test@example.com'',
       To := Some [addr ''email@example.com''], Subject := ''Subj.'', Text := ''Test'',
       Category := replicate 260 CHR ''c''\<rparr>"

text \<open>A request that passes validation.\<close>

definition req_valid :: SendEmailRequest where
  "req_valid =
     zero_SendEmailRequest\<lparr>From := addr ''test@example.com'',
       To := Some [addr ''email@example.com''], Subject := ''Subj.'', Text := ''Test''\<rparr>"

definition emailRequestMock :: SendEmailRequest where
  "emailRequestMock =
     \<lparr>From = \<lparr>Email = ''ches@example.com'', Name = ''Ches''\<rparr>,
      To = Some [\<lparr>Email = ''johndoe@example.com'', Name = ''John Doe''\<rparr>,
                 \<lparr>Email = ''mike@example.com'', Name = ''Mike''\<rparr>],
      Cc = Some [\<lparr>Email = ''info@example.com'', Name = ''Example LLC''\<rparr>],
      Bcc = Some [addr ''dontreply@example.com''],
      Attachments = Some [\<lparr>Content = ''PGh0bWw+CiAgICA8aGVhZD4KICAgICAgICA8dGl0bGU+YjY0PC90aXRsZT4KICAgIDwvaGVhZD4KICAgIDxib2R5PgogICAgPHA+SGVsbG8sIHdvcmxkITwvcD4KICAgIDwvYm9keT4KPC9odG1sPg=='', AttachType = ''text/html'',
                            Filename = ''index.html'', Disposition = ''attachment'',
                            ContentID = []\<rparr>],
      Headers = Some [(''X-Message-Source'', ''mail.example.com'')],
      CustomVars = Some [(''user_id'', ''1''), (''batch_id'', ''2'')],
      Subject = ''Your Example Order Confirmation'',
      Text = ''Congratulations on your order no.123'',
      HTML = [], Category = ''API Client''\<rparr>"


section \<open>A test environment\<close>

text \<open>
  An environment in the manner of the test server: the two API addresses parse, every
  URL string is accepted, the server answers a request with status 200 and the body of
  the test handler, string literals need no escaping, and the JSON decoders know the
  bodies used below.
\<close>

definition send_ok_body :: string where
  \<open>send_ok_body = ''{"success":true,"message_ids":["0c7fd939-02cf-11ed-88c2-0a58a9feac02"]}''\<close>

definition error_body :: string where
  \<open>error_body = ''{"error":"Unauthorized"}''\<close>

definition test_env :: env where
  "test_env =
     \<lparr>GOOS = ''linux'', GOARCH = ''amd64'', go_Version = ''go1.21.0'',
      url_Parse = (\<lambda>s. if s = sendingAPIURL
                 then Inr \<lparr>Scheme = ''https'', Host = ''send.api.mailtrap.io'', Path = ''/''\<rparr>
               else if s = sandboxAPIURL
                 then Inr \<lparr>Scheme = ''https'', Host = ''sandbox.api.mailtrap.io'', Path = ''/''\<rparr>
               else Inl (ExtError ''parse: invalid URL'')),
      url_ok = (\<lambda>u. True),
      RoundTrip = (\<lambda>req. Inr \<lparr>StatusCode = 200, RespHeader = Map.empty,
                                RespBody = Inr send_ok_body\<rparr>),
      json_escape = (\<lambda>s. s),
      json_Unmarshal_ErrorResponse = (\<lambda>data m. if data = error_body then (None, ''Unauthorized'')
               else (Some (ExtError ''invalid character''), m)),
      json_Decode_SendEmailResponse = (\<lambda>data v. if data = send_ok_body
                 then Inr \<lparr>Success = True,
                           MessageIDs = Some [''0c7fd939-02cf-11ed-88c2-0a58a9feac02'']\<rparr>
               else Inl (ExtError ''invalid character''))\<rparr>"

text \<open>The same with a server that answers every request with the given response.\<close>

definition test_env_answering :: "http_Response \<Rightarrow> env" where
  "test_env_answering resp = test_env\<lparr>RoundTrip := (\<lambda>req. Inr resp)\<rparr>"

definition world0 :: world where
  "world0 = \<lparr>urls = [], wire = []\<rparr>"

text \<open>
  The client \<^verbatim>\<open>getClient("api-token", sendingAPIURL)\<close> returns in the empty world,
  the world it leaves, and the two sending clients on it.
\<close>

definition test_client :: client where
  "test_client = \<lparr>apiKey = ''api-token'', baseURL = Some 0,
     userAgent = ''mailtrap-go/0.1.2 (linux amd64) go/go1.21.0'',
     httpClient = Some \<lparr>Timeout = 30\<rparr>\<rparr>"

definition world1 :: world where
  "world1 = \<lparr>urls = [\<lparr>Scheme = ''https'', Host = ''send.api.mailtrap.io'', Path = ''/api''\<rparr>],
             wire = []\<rparr>"

definition test_production :: ProductionSendingClient where
  "test_production = \<lparr>pclient = test_client\<rparr>"

definition test_sandbox :: SandboxSendingClient where
  "test_sandbox = \<lparr>sclient = test_client, inboxID = 1234\<rparr>"


section \<open>The two sends as one routine\<close>

text \<open>
  The specification describes the two variants as one routine that differs only in the
  target path: reject a null request, validate, build a POST to the path with the
  request as body, execute it and decode the answer into the typed send response.
\<close>

definition send_to_path ::
  "env \<Rightarrow> client \<Rightarrow> string \<Rightarrow> SendEmailRequest option \<Rightarrow> world \<Rightarrow> send_result \<times> world" where
  "send_to_path E c path request w =
     (case request of
        None \<Rightarrow> ((None, None, Some (ErrorsNew ''request `SendEmailRequest` is mandatory'')), w)
      | Some r \<Rightarrow>
         (case validate r of
            Some err \<Rightarrow> ((None, None, Some err), w)
          | None \<Rightarrow>
             (case NewRequest E (marshal_request E) c ''POST'' path (Some r) w of
                (Inl err, w1) \<Rightarrow> ((None, None, Some err), w1)
              | (Inr req, w1) \<Rightarrow>
                 (case Do E (json_Decode_SendEmailResponse E) c req
                          (TypedPtr zero_SendEmailResponse) w1 of
                    ((res, Some err, v), w2) \<Rightarrow> ((None, res, Some err), w2)
                  | ((res, None, v), w2) \<Rightarrow> ((pointee v, res, None), w2)))))"


section \<open>The request a send puts on the wire\<close>

text \<open>
  The POST request with the serialised send request as body and the four headers, for a
  given URL string.
\<close>

definition post_request :: "env \<Rightarrow> client \<Rightarrow> string \<Rightarrow> SendEmailRequest \<Rightarrow> http_Request" where
  "post_request E c url r =
     set_headers c True
       \<lparr>Method = ''POST'', ReqURL = url, Header = Map.empty,
        Body = Bytes (json_Marshal_SendEmailRequest (json_escape E) r @ [CHR 0x0A])\<rparr>"

text \<open>
  A request made by hand with \<^verbatim>\<open>http.NewRequest\<close>, which carries no
  \<^verbatim>\<open>Accept\<close> header, and the answer of the test server.
\<close>

definition plain_request :: http_Request where
  "plain_request = \<lparr>Method = ''GET'', ReqURL = ''https://mailtrap.io/api/accounts'',
     Header = Map.empty, Body = NilBody\<rparr>"

definition ok_response :: http_Response where
  "ok_response = \<lparr>StatusCode = 200, RespHeader = Map.empty, RespBody = Inr send_ok_body\<rparr>"

text \<open>Two answers outside 200..299: one with a JSON error body, one with plain text.\<close>

definition unauthorized_response :: http_Response where
  "unauthorized_response = \<lparr>StatusCode = 401, RespHeader = Map.empty, RespBody = Inr error_body\<rparr>"

definition not_found_response :: http_Response where
  "not_found_response = \<lparr>StatusCode = 404, RespHeader = Map.empty, RespBody = Inr ''Not Found''\<rparr>"


section \<open>Validation: the loops\<close>

lemma fmt_int_categoryMaxLength: "fmt_int (int categoryMaxLength) = ''255''"
  by code_simp

lemma to_loop_None_iff: "to_loop vs = None \<longleftrightarrow> (\<forall>v\<in>set vs. Email v \<noteq> [])"
  by (induction vs) auto

lemma to_loop_Some:
  "to_loop vs = Some e \<Longrightarrow> e = ErrorsNew '''email' is required in 'to' address''"
  by (induction vs) (auto split: if_splits)

lemma attachments_loop_eq:
  "attachments_loop vs acc = acc @ concat (map attachment_problems vs)"
  by (induction vs arbitrary: acc) (simp_all add: attachment_problems_def Let_def)

lemma concat_problems_Nil_iff:
  "concat (map attachment_problems vs) = []
     \<longleftrightarrow> (\<forall>a\<in>set vs. Content a \<noteq> [] \<and> Filename a \<noteq> [])"
  by (induction vs) (auto simp: attachment_problems_def)

lemma attachments_check_eq:
  "attachments_check r =
     (if concat (map attachment_problems (elems (Attachments r))) = [] then None
      else Some (ErrorsNew (strings_Join
             (concat (map attachment_problems (elems (Attachments r)))) ''; '')))"
  by (cases "elems (Attachments r)")
     (simp_all add: attachments_check_def len_def attachments_loop_eq Let_def
        del: attachments_loop.simps)

lemma validate_first_violation: "validate r = first_violation r"
proof (cases "to_loop (elems (To r))")
  case None
  then have "\<not> (\<exists>v\<in>set (elems (To r)). Email v = [])"
    by (simp add: to_loop_None_iff)
  with None show ?thesis
    unfolding validate_def first_violation_def attachments_check_eq fmt_int_categoryMaxLength
    using concat_problems_Nil_iff [of "elems (Attachments r)"]
    by (simp add: len_def categoryMaxLength_def)
next
  case (Some e)
  then have e: "e = ErrorsNew '''email' is required in 'to' address''"
    by (rule to_loop_Some)
  from Some have "\<exists>v\<in>set (elems (To r)). Email v = []"
    using to_loop_None_iff [of "elems (To r)"] by auto
  with Some e show ?thesis
    unfolding validate_def first_violation_def by (simp add: len_def)
qed

lemma ProductionSend_invalid:
  "validate r = Some e \<Longrightarrow> ProductionSend E sc (Some r) w = ((None, None, Some e), w)"
  by (simp add: ProductionSend_def)

lemma SandboxSend_invalid:
  "validate r = Some e \<Longrightarrow> SandboxSend E sc (Some r) w = ((None, None, Some e), w)"
  by (simp add: SandboxSend_def)

lemmas fixture_defs =
  req_notValidEmailFrom_def req_notValidEmailTo_def req_emptyEmailTo_def
  req_notValidAttachment_def req_missedSubject_def req_textOrHTMLRequired_def
  req_categoryTooLong_def req_valid_def zero_SendEmailRequest_def zero_EmailAddress_def
  zero_EmailAttachment_def addr_def


section \<open>Claims about validation\<close>

text \<open>
  C1. The validation run by \<^verbatim>\<open>Send\<close> returns the error of the first violated rule
  in the fixed order (from.email, to, the emails of the to-entries, the attachments,
  subject, text or html, category), with exactly the message of that rule, whatever the
  later rules say; and both clients return that error, with no response, from \<^verbatim>\<open>Send\<close>.
\<close>

theorem C1_first_violated_rule:
  "validate r = first_violation r
   \<and> (\<forall>e. first_violation r = Some e \<longrightarrow>
         ProductionSend E pc (Some r) w = ((None, None, Some e), w)
         \<and> SandboxSend E sc (Some r) w = ((None, None, Some e), w))"
  using validate_first_violation [of r]
  by (simp add: ProductionSend_invalid SandboxSend_invalid)

theorem C1_first_violated_rule_witness:
  "validate req_notValidEmailFrom = Some (ErrorsNew '''from' address is required'')
   \<and> validate req_notValidEmailTo = Some (ErrorsNew '''to' address is required'')
   \<and> validate req_emptyEmailTo = Some (ErrorsNew '''email' is required in 'to' address'')
   \<and> validate req_notValidAttachment = Some (ErrorsNew
        '''content' is required in attachment; 'filename' is required in attachment'')
   \<and> validate req_missedSubject = Some (ErrorsNew '''subject' is required'')
   \<and> validate req_textOrHTMLRequired = Some (ErrorsNew ''one of 'text' or 'html' is required'')
   \<and> validate req_categoryTooLong = Some (ErrorsNew '''category' is greater than 255 chars'')
   \<and> validate req_valid = None
   \<and> ProductionSend test_env test_production (Some req_missedSubject) world1
        = ((None, None, Some (ErrorsNew '''subject' is required'')), world1)
   \<and> SandboxSend test_env test_sandbox (Some req_missedSubject) world1
        = ((None, None, Some (ErrorsNew '''subject' is required'')), world1)"
proof -
  have v: "first_violation req_missedSubject = Some (ErrorsNew '''subject' is required'')"
    by (simp add: first_violation_def fixture_defs elems_def)
  show ?thesis
    using C1_first_violated_rule [of req_notValidEmailFrom]
      C1_first_violated_rule [of req_notValidEmailTo]
      C1_first_violated_rule [of req_emptyEmailTo]
      C1_first_violated_rule [of req_notValidAttachment]
      C1_first_violated_rule [of req_missedSubject test_env test_production world1 test_sandbox]
      C1_first_violated_rule [of req_textOrHTMLRequired]
      C1_first_violated_rule [of req_categoryTooLong]
      C1_first_violated_rule [of req_valid] v
    by (simp add: first_violation_def fixture_defs elems_def attachment_problems_def)
qed

text \<open>
  C3. When the from and to rules hold and there are attachments, validation collects,
  attachment by attachment, one content message for each attachment with empty content
  and one filename message for each attachment with empty filename (content before
  filename for the same attachment); when anything was collected the error is all of
  them joined with \<^verbatim>\<open>"; "\<close>, and a single attachment that misses both gives the two
  messages in that order.
\<close>

theorem C3_attachment_messages_accumulate:
  assumes "Email (From r) \<noteq> []" and "elems (To r) \<noteq> []"
    and "\<forall>v\<in>set (elems (To r)). Email v \<noteq> []"
    and "elems (Attachments r) \<noteq> []"
  shows "let atts = elems (Attachments r); msgs = attachments_loop atts [] in
     msgs = concat (map attachment_problems atts)
     \<and> count_list msgs '''content' is required in attachment''
           = length (filter (\<lambda>a. Content a = []) atts)
     \<and> count_list msgs '''filename' is required in attachment''
           = length (filter (\<lambda>a. Filename a = []) atts)
     \<and> (msgs \<noteq> [] \<longrightarrow> validate r = Some (ErrorsNew (strings_Join msgs ''; '')))
     \<and> (\<forall>a. atts = [a] \<and> Content a = [] \<and> Filename a = [] \<longrightarrow>
           validate r = Some (ErrorsNew
             '''content' is required in attachment; 'filename' is required in attachment''))"
proof -
  let ?atts = "elems (Attachments r)"
  let ?msgs = "concat (map attachment_problems ?atts)"
  have loop: "attachments_loop ?atts [] = ?msgs"
    by (simp add: attachments_loop_eq)
  have cnt_c: "count_list (concat (map attachment_problems xs))
        '''content' is required in attachment'' = length (filter (\<lambda>a. Content a = []) xs)" for xs
    by (induction xs) (simp_all add: attachment_problems_def)
  have cnt_f: "count_list (concat (map attachment_problems xs))
        '''filename' is required in attachment'' = length (filter (\<lambda>a. Filename a = []) xs)" for xs
    by (induction xs) (simp_all add: attachment_problems_def)
  have val: "validate r = Some (ErrorsNew (strings_Join ?msgs ''; ''))" if "?msgs \<noteq> []"
  proof -
    from that have "\<exists>a\<in>set ?atts. Content a = [] \<or> Filename a = []"
      using concat_problems_Nil_iff [of ?atts] by auto
    with assms show ?thesis
      by (simp add: validate_first_violation first_violation_def)
  qed
  have single: "validate r = Some (ErrorsNew
        '''content' is required in attachment; 'filename' is required in attachment'')"
    if "?atts = [a]" "Content a = []" "Filename a = []" for a
  proof -
    from that have m: "?msgs = ['''content' is required in attachment'',
        '''filename' is required in attachment'']"
      by (simp add: attachment_problems_def)
    then have "?msgs \<noteq> []" by simp
    from val [OF this] m show ?thesis by simp
  qed
  show ?thesis
    unfolding Let_def loop using cnt_c cnt_f val single by blast
qed

theorem C3_attachment_messages_accumulate_witness:
  "validate req_notValidAttachment = Some (ErrorsNew
     '''content' is required in attachment; 'filename' is required in attachment'')
   \<and> attachments_loop (elems (Attachments req_notValidAttachment)) []
       = ['''content' is required in attachment'', '''filename' is required in attachment'']"
proof -
  have h: "Email (From req_notValidAttachment) \<noteq> []"
      "elems (To req_notValidAttachment) \<noteq> []"
      "\<forall>v\<in>set (elems (To req_notValidAttachment)). Email v \<noteq> []"
      "elems (Attachments req_notValidAttachment) \<noteq> []"
    by (simp_all add: fixture_defs elems_def)
  have a: "elems (Attachments req_notValidAttachment) = [zero_EmailAttachment]"
    by (simp add: fixture_defs elems_def)
  show ?thesis
    using C3_attachment_messages_accumulate [OF h]
    by (simp add: Let_def a attachment_problems_def zero_EmailAttachment_def)
qed

text \<open>
  C10. Validation reads only from, to, the content and filename of the attachments,
  subject, text, html and category: a request that satisfies the seven rules passes
  validation whatever its cc and bcc lists, its headers and custom variables, and the
  type, disposition and content ID of its attachments are.
\<close>

theorem C10_validation_ignores_other_fields:
  assumes "Email (From r) \<noteq> []" and "elems (To r) \<noteq> []"
    and "\<forall>v\<in>set (elems (To r)). Email v \<noteq> []"
    and "\<forall>a\<in>set (elems (Attachments r)). Content a \<noteq> [] \<and> Filename a \<noteq> []"
    and "Subject r \<noteq> []" and "Text r \<noteq> [] \<or> HTML r \<noteq> []"
    and "length (Category r) \<le> 255"
  shows "validate (r\<lparr>Cc := cc, Bcc := bcc, Headers := hs, CustomVars := cv,
            Attachments := map_option (map (\<lambda>a. a\<lparr>AttachType := ty a, Disposition := di a,
                                                  ContentID := ci a\<rparr>)) (Attachments r)\<rparr>) = None"
proof -
  let ?f = "\<lambda>a. a\<lparr>AttachType := ty a, Disposition := di a, ContentID := ci a\<rparr>"
  have "elems (map_option (map ?f) (Attachments r)) = map ?f (elems (Attachments r))"
    by (cases "Attachments r") (simp_all add: elems_def)
  with assms show ?thesis
    by (simp add: validate_first_violation first_violation_def)
qed

theorem C10_validation_ignores_other_fields_witness:
  "validate (emailRequestMock\<lparr>Cc := Some [addr []], Bcc := Some [addr []],
       Headers := Some [(''X-Message-Source'', replicate 2000 CHR ''x'')],
       CustomVars := Some [(''user_id'', replicate 2000 CHR ''1'')],
       Attachments := map_option (map (\<lambda>a. a\<lparr>AttachType := [], Disposition := ''inline'',
            ContentID := ''cid''\<rparr>)) (Attachments emailRequestMock)\<rparr>) = None"
proof -
  have h: "Email (From emailRequestMock) \<noteq> []" "elems (To emailRequestMock) \<noteq> []"
      "\<forall>v\<in>set (elems (To emailRequestMock)). Email v \<noteq> []"
      "\<forall>a\<in>set (elems (Attachments emailRequestMock)). Content a \<noteq> [] \<and> Filename a \<noteq> []"
      "Subject emailRequestMock \<noteq> []" "Text emailRequestMock \<noteq> [] \<or> HTML emailRequestMock \<noteq> []"
      "length (Category emailRequestMock) \<le> 255"
    by (simp_all add: emailRequestMock_def elems_def)
  show ?thesis
    by (rule C10_validation_ignores_other_fields [OF h])
qed


section \<open>The transport core: building a request\<close>

lemma set_headers_Header:
  "Header (set_headers c b req) ''Accept'' = Some ''application/json''"
  "Header (set_headers c b req) ''User-Agent'' = Some (userAgent c)"
  "Header (set_headers c b req) ''Authorization'' = Some (''Bearer '' @ apiKey c)"
  "Header req ''Content-Type'' = None \<Longrightarrow>
     Header (set_headers c b req) ''Content-Type'' = (if b then Some ''application/json'' else None)"
  by (simp_all add: set_headers_def header_Set_def defaultAccept_def Let_def)

lemma set_headers_other:
  "Method (set_headers c b req) = Method req"
  "ReqURL (set_headers c b req) = ReqURL req"
  "Body (set_headers c b req) = Body req"
  by (simp_all add: set_headers_def Let_def)

lemma http_NewRequest_Inr:
  "http_NewRequest E method url body = Inr req \<Longrightarrow>
     Header req = Map.empty \<and> ReqURL req = url
     \<and> Method req = (if method = [] then ''GET'' else method)
     \<and> Body req = (case body of None \<Rightarrow> NilBody
                    | Some b \<Rightarrow> if b = [] then NoBody else Bytes b)"
  by (auto simp: http_NewRequest_def Let_def split: if_splits)

lemma validMethod_POST: "validMethod ''POST''"
  by (simp add: validMethod_def isTokenChar_def)

lemma NewRequest_Inr:
  assumes "NewRequest E marshal c method path body w = (Inr req, w')"
  shows "\<exists>u base r0. baseURL c = Some u \<and> deref w (Some u) = Some base
     \<and> w' = w\<lparr>urls := (urls w)[u := base\<lparr>Path := Path base @ path\<rparr>]\<rparr>
     \<and> req = set_headers c (body \<noteq> None) r0
     \<and> (if method = ''GET'' \<or> method = ''HEAD'' \<or> method = ''OPTIONS''
         then http_NewRequest E method (URL_String (base\<lparr>Path := Path base @ path\<rparr>)) None
                = Inr r0
         else \<exists>buf. (case body of None \<Rightarrow> Inr [] | Some b \<Rightarrow> json_Encode marshal b) = Inr buf
              \<and> http_NewRequest E method (URL_String (base\<lparr>Path := Path base @ path\<rparr>))
                    (Some buf) = Inr r0)"
  using assms
  by (auto simp: NewRequest_def Let_def deref_def split: option.splits sum.splits if_splits)

lemma NewRequest_world:
  assumes "baseURL c = Some u" and "deref w (Some u) = Some base"
  shows "snd (NewRequest E marshal c method path body w)
           = w\<lparr>urls := (urls w)[u := base\<lparr>Path := Path base @ path\<rparr>]\<rparr>"
  using assms
  by (simp add: NewRequest_def Let_def split: sum.splits option.splits)

lemma NewRequest_POST:
  assumes "baseURL c = Some u" and "deref w (Some u) = Some base"
    and "url_ok E (URL_String (base\<lparr>Path := Path base @ path\<rparr>))"
  shows "NewRequest E (marshal_request E) c ''POST'' path (Some r) w
     = (Inr (post_request E c (URL_String (base\<lparr>Path := Path base @ path\<rparr>)) r),
        w\<lparr>urls := (urls w)[u := base\<lparr>Path := Path base @ path\<rparr>]\<rparr>)"
proof -
  from assms(2) have u: "u < length (urls w)"
    by (simp add: deref_def split: if_splits)
  show ?thesis
    using assms u
    by (simp add: NewRequest_def Let_def json_Encode_def marshal_request_def
        http_NewRequest_def validMethod_POST post_request_def)
qed

text \<open>
  C4, as the code has it. A request built by \<^verbatim>\<open>NewRequest\<close> carries
  \<^verbatim>\<open>Accept: application/json\<close>, the client's user agent and
  \<^verbatim>\<open>Authorization: Bearer <api_key>\<close>. For GET, HEAD and OPTIONS no body is attached;
  for any other method a non-null body argument is serialised and attached, and a null one
  leaves the request without content. \<^verbatim>\<open>Content-Type: application/json\<close> is present
  exactly when the body argument is non-null, also on a GET, HEAD or OPTIONS request.
\<close>

theorem C4_request_headers_and_body:
  assumes "NewRequest E marshal c method path body w = (Inr req, w')"
  shows "Header req ''Accept'' = Some ''application/json''
     \<and> Header req ''User-Agent'' = Some (userAgent c)
     \<and> Header req ''Authorization'' = Some (''Bearer '' @ apiKey c)
     \<and> (method = ''GET'' \<or> method = ''HEAD'' \<or> method = ''OPTIONS'' \<longrightarrow> Body req = NilBody)
     \<and> (\<not> (method = ''GET'' \<or> method = ''HEAD'' \<or> method = ''OPTIONS'') \<longrightarrow>
          (case body of None \<Rightarrow> Body req = NoBody
           | Some b \<Rightarrow> \<exists>s. marshal b = Inr s \<and> Body req = Bytes (s @ [CHR 0x0A])))
     \<and> Header req ''Content-Type'' = (if body \<noteq> None then Some ''application/json'' else None)"
proof -
  from NewRequest_Inr [OF assms] obtain base r0 where
    req: "req = set_headers c (body \<noteq> None) r0"
    and r0: "if method = ''GET'' \<or> method = ''HEAD'' \<or> method = ''OPTIONS''
         then http_NewRequest E method (URL_String (base\<lparr>Path := Path base @ path\<rparr>)) None
                = Inr r0
         else \<exists>buf. (case body of None \<Rightarrow> Inr [] | Some b \<Rightarrow> json_Encode marshal b) = Inr buf
              \<and> http_NewRequest E method (URL_String (base\<lparr>Path := Path base @ path\<rparr>))
                    (Some buf) = Inr r0"
    by blast
  have h0: "Header r0 = Map.empty"
    using r0 by (auto dest: http_NewRequest_Inr split: if_splits)
  have b1: "Body r0 = NilBody" if "method = ''GET'' \<or> method = ''HEAD'' \<or> method = ''OPTIONS''"
    using r0 that by (auto dest: http_NewRequest_Inr)
  have b2: "case body of None \<Rightarrow> Body r0 = NoBody
           | Some b \<Rightarrow> \<exists>s. marshal b = Inr s \<and> Body r0 = Bytes (s @ [CHR 0x0A])"
    if "\<not> (method = ''GET'' \<or> method = ''HEAD'' \<or> method = ''OPTIONS'')"
    using r0 that
    by (auto dest!: http_NewRequest_Inr simp: json_Encode_def split: option.splits sum.splits)
  show ?thesis
    unfolding req using h0 b1 b2
    by (cases body) (auto simp: set_headers_Header set_headers_other)
qed

theorem C4_request_headers_and_body_witness:
  "(case fst (NewRequest test_env (marshal_request test_env) test_client ''POST'' ''/send''
                (Some req_valid) world1) of
      Inl e \<Rightarrow> False
    | Inr req \<Rightarrow> Header req ''Content-Type'' = Some ''application/json''
        \<and> Header req ''Accept'' = Some ''application/json''
        \<and> Header req ''Authorization'' = Some ''Bearer api-token''
        \<and> Body req = Bytes (json_Marshal_SendEmailRequest (\<lambda>s. s) req_valid @ [CHR 0x0A]))"
proof -
  obtain req w' where r:
    "NewRequest test_env (marshal_request test_env) test_client ''POST'' ''/send''
       (Some req_valid) world1 = (Inr req, w')"
    by (simp add: NewRequest_def test_client_def world1_def deref_def Let_def
        json_Encode_def marshal_request_def http_NewRequest_def validMethod_POST test_env_def)
  have "Header req ''Content-Type'' = Some ''application/json''
        \<and> Header req ''Accept'' = Some ''application/json''
        \<and> Header req ''Authorization'' = Some ''Bearer api-token''
        \<and> Body req = Bytes (json_Marshal_SendEmailRequest (\<lambda>s. s) req_valid @ [CHR 0x0A])"
    using C4_request_headers_and_body [OF r]
    by (simp add: test_client_def marshal_request_def test_env_def)
  then show ?thesis
    unfolding r by simp
qed

text \<open>
  A GET with a non-null body argument: no body is attached, and the request still
  carries \<^verbatim>\<open>Content-Type: application/json\<close>.
\<close>

theorem C4_content_type_without_body_counterexample:
  "(case fst (NewRequest test_env (marshal_request test_env) test_client ''GET'' ''/send''
                (Some req_valid) world1) of
      Inl e \<Rightarrow> False
    | Inr req \<Rightarrow> Body req = NilBody \<and> Header req ''Content-Type'' = Some ''application/json'')"
  by (simp add: NewRequest_def test_client_def world1_def deref_def Let_def
        http_NewRequest_def validMethod_def isTokenChar_def
        test_env_def set_headers_def header_Set_def)


section \<open>The sending clients\<close>

lemma Do_world:
  "httpClient c = Some hc \<Longrightarrow> snd (Do E jd c req v w) = w\<lparr>wire := wire w @ [req]\<rparr>"
  by (simp add: Do_def Let_def split: sum.splits option.splits prod.splits)

lemma send_to_path_world:
  assumes "validate r = None" and "baseURL c = Some u" and "deref w (Some u) = Some base"
    and "url_ok E (URL_String (base\<lparr>Path := Path base @ path\<rparr>))"
    and "httpClient c = Some hc"
  shows "snd (send_to_path E c path (Some r) w)
     = w\<lparr>urls := (urls w)[u := base\<lparr>Path := Path base @ path\<rparr>],
          wire := wire w
             @ [post_request E c (URL_String (base\<lparr>Path := Path base @ path\<rparr>)) r]\<rparr>"
proof -
  let ?w1 = "w\<lparr>urls := (urls w)[u := base\<lparr>Path := Path base @ path\<rparr>]\<rparr>"
  let ?req = "post_request E c (URL_String (base\<lparr>Path := Path base @ path\<rparr>)) r"
  have "snd (send_to_path E c path (Some r) w)
      = snd (Do E (json_Decode_SendEmailResponse E) c ?req (TypedPtr zero_SendEmailResponse) ?w1)"
    using assms(1) NewRequest_POST [OF assms(2-4)]
    by (simp add: send_to_path_def split: prod.splits option.splits)
  then show ?thesis
    by (simp add: Do_world [OF assms(5)])
qed

lemma ProductionSend_send_to_path:
  "ProductionSend E sc request w = send_to_path E (pclient sc) ''/send'' request w"
  unfolding ProductionSend_def send_to_path_def by (rule refl)


lemma validate_req_valid: "validate req_valid = None"
  by (simp add: validate_def req_valid_def zero_SendEmailRequest_def zero_EmailAddress_def
      addr_def len_def elems_def attachments_check_def categoryMaxLength_def)

text \<open>
  C2, as the code has it. For a nil request \<^verbatim>\<open>Send\<close> of both clients returns at
  once the error \<^verbatim>\<open>request `SendEmailRequest` is mandatory\<close> and no response. The
  world is as before: nothing was put on the wire and no request was built (building one
  writes the base URL).
\<close>

theorem C2_nil_request_rejected:
  "ProductionSend E pc None w
     = ((None, None, Some (ErrorsNew ''request `SendEmailRequest` is mandatory'')), w)
   \<and> SandboxSend E sc None w
     = ((None, None, Some (ErrorsNew ''request `SendEmailRequest` is mandatory'')), w)"
  by (simp add: ProductionSend_def SandboxSend_def)

theorem C2_nil_request_rejected_witness:
  "ProductionSend test_env test_production None world1
     = ((None, None, Some (ErrorsNew ''request `SendEmailRequest` is mandatory'')), world1)
   \<and> SandboxSend test_env test_sandbox None world1
     = ((None, None, Some (ErrorsNew ''request `SendEmailRequest` is mandatory'')), world1)"
  by (rule C2_nil_request_rejected)

text \<open>The error of a nil request is not the message \<^verbatim>\<open>request is mandatory\<close>.\<close>

theorem C2_message_counterexample:
  "snd (snd (fst (ProductionSend test_env test_production None world1)))
     = Some (ErrorsNew ''request `SendEmailRequest` is mandatory'')
   \<and> ErrorsNew ''request `SendEmailRequest` is mandatory''
       \<noteq> ErrorsNew ''request is mandatory''"
  by (simp add: ProductionSend_def)


lemma test_send_once:
  "snd (ProductionSend test_env test_production (Some req_valid) world1)
     = \<lparr>urls = [\<lparr>Scheme = ''https'', Host = ''send.api.mailtrap.io'', Path = ''/api/send''\<rparr>],
        wire = [post_request test_env test_client ''https://send.api.mailtrap.io/api/send'' req_valid]\<rparr>"
proof -
  let ?b = "\<lparr>Scheme = ''https'', Host = ''send.api.mailtrap.io'', Path = ''/api''\<rparr>"
  have "snd (send_to_path test_env test_client ''/send'' (Some req_valid) world1) =
    world1\<lparr>urls := (urls world1)[0 := ?b\<lparr>Path := Path ?b @ ''/send''\<rparr>],
          wire := wire world1 @ [post_request test_env test_client
             (URL_String (?b\<lparr>Path := Path ?b @ ''/send''\<rparr>)) req_valid]\<rparr>"
    by (rule send_to_path_world [OF validate_req_valid, where hc = "\<lparr>Timeout = 30\<rparr>"])
       (simp_all add: test_client_def world1_def deref_def test_env_def)
  then show ?thesis
    by (simp add: ProductionSend_send_to_path test_production_def world1_def URL_String_def)
qed

lemma test_send_twice:
  "snd (ProductionSend test_env test_production (Some req_valid)
          (snd (ProductionSend test_env test_production (Some req_valid) world1)))
     = \<lparr>urls = [\<lparr>Scheme = ''https'', Host = ''send.api.mailtrap.io'', Path = ''/api/send/send''\<rparr>],
        wire = [post_request test_env test_client ''https://send.api.mailtrap.io/api/send'' req_valid,
                post_request test_env test_client ''https://send.api.mailtrap.io/api/send/send'' req_valid]\<rparr>"
proof -
  let ?b = "\<lparr>Scheme = ''https'', Host = ''send.api.mailtrap.io'', Path = ''/api/send''\<rparr>"
  let ?w = "\<lparr>urls = [?b],
        wire = [post_request test_env test_client ''https://send.api.mailtrap.io/api/send'' req_valid]\<rparr>"
  have "snd (send_to_path test_env test_client ''/send'' (Some req_valid) ?w) =
    ?w\<lparr>urls := (urls ?w)[0 := ?b\<lparr>Path := Path ?b @ ''/send''\<rparr>],
          wire := wire ?w @ [post_request test_env test_client
             (URL_String (?b\<lparr>Path := Path ?b @ ''/send''\<rparr>)) req_valid]\<rparr>"
    by (rule send_to_path_world [OF validate_req_valid, where hc = "\<lparr>Timeout = 30\<rparr>"])
       (simp_all add: test_client_def deref_def test_env_def)
  then show ?thesis
    unfolding test_send_once
    by (simp add: ProductionSend_send_to_path test_production_def URL_String_def)
qed

text \<open>
  C5 on the code. \<^verbatim>\<open>getClient\<close> leaves a client whose base URL has the path
  \<^verbatim>\<open>/api\<close>. One call of \<^verbatim>\<open>NewRequest\<close> with the path \<^verbatim>\<open>/send\<close>
  leaves the base URL of the same client with the path \<^verbatim>\<open>/api/send\<close>, and of two
  sends in a row the second goes to \<^verbatim>\<open>/api/send/send\<close>.
\<close>

theorem C5_NewRequest_writes_base_path:
  "getClient test_env ''api-token'' sendingAPIURL world0 = (Inr test_client, world1)
   \<and> map_option Path (deref world1 (baseURL test_client)) = Some ''/api''
   \<and> map_option Path (deref (snd (NewRequest test_env (marshal_request test_env) test_client
          ''POST'' ''/send'' (Some req_valid) world1)) (baseURL test_client)) = Some ''/api/send''
   \<and> map ReqURL (wire (snd (ProductionSend test_env test_production (Some req_valid)
          (snd (ProductionSend test_env test_production (Some req_valid) world1)))))
       = [''https://send.api.mailtrap.io/api/send'', ''https://send.api.mailtrap.io/api/send/send'']"
  unfolding test_send_twice
  by (simp add: getClient_def test_env_def world0_def world1_def test_client_def
      userAgent_var_def libVersion_def apiSuffix_def sendingAPIURL_def deref_def NewRequest_world
      post_request_def set_headers_other)


section \<open>Serialising the zero request\<close>

text \<open>
  C9, as the code has it. No field of the request is omitted when empty: the all-default
  request serialises to the object with all eleven keys, the from address with an empty
  email and name, the lists and maps as \<^verbatim>\<open>null\<close> and the strings empty.
\<close>

theorem C9_zero_request_json:
  assumes "esc [] = []"
  shows \<open>json_Marshal_SendEmailRequest esc zero_SendEmailRequest
     = ''{"from":{"email":"","name":""},"to":null,"cc":null,"bcc":null,"attachments":null,"headers":null,"custom_variables":null,"subject":"","text":"","html":"","category":""}''\<close>
  using assms
  by (simp add: json_Marshal_SendEmailRequest_def zero_SendEmailRequest_def zero_EmailAddress_def
      json_EmailAddress_def json_string_def json_slice_def json_map_def)

theorem C9_zero_request_json_witness:
  \<open>json_Marshal_SendEmailRequest (json_escape test_env) zero_SendEmailRequest
     = ''{"from":{"email":"","name":""},"to":null,"cc":null,"bcc":null,"attachments":null,"headers":null,"custom_variables":null,"subject":"","text":"","html":"","category":""}''\<close>
proof -
  have h: "json_escape test_env [] = []"
    by (simp add: test_env_def)
  show ?thesis
    by (rule C9_zero_request_json [of "json_escape test_env", OF h])
qed

text \<open>The all-default request does not serialise to \<^verbatim>\<open>{}\<close>.\<close>

theorem C9_not_empty_object_counterexample:
  \<open>json_Marshal_SendEmailRequest (json_escape test_env) zero_SendEmailRequest \<noteq> ''{}''\<close>
  by (simp add: json_Marshal_SendEmailRequest_def)





section \<open>The transport core: executing a request\<close>

lemma checkResponse_2xx:
  "200 \<le> StatusCode r \<Longrightarrow> StatusCode r \<le> 299 \<Longrightarrow> checkResponse E r = None"
  by (simp add: checkResponse_def)

lemma Do_2xx:
  assumes "httpClient c = Some hc" and "RoundTrip E req = Inr resp"
    and "200 \<le> StatusCode resp" and "StatusCode resp \<le> 299"
  shows "Do E jd c req v w =
     (if v \<noteq> NilDest then
        (case decode jd v (Some (RespBody resp)) (header_Get (Header req) ''Accept'') of
           (e, v') \<Rightarrow> ((Some resp, e, v'), w\<lparr>wire := wire w @ [req]\<rparr>))
      else ((Some resp, None, v), w\<lparr>wire := wire w @ [req]\<rparr>))"
  using assms
  by (simp add: Do_def Let_def checkResponse_2xx split: prod.splits option.splits)

text \<open>
  C6, as the code has it. On a 2xx response the decoding goes by the destination: a nil
  destination leaves the body alone and gives no error; a string destination receives
  the whole body; another destination, when the request's \<^verbatim>\<open>Accept\<close> header is
  \<^verbatim>\<open>application/json\<close>, is JSON-decoded into (with the decoder's error if it fails);
  and a typed destination with any other \<^verbatim>\<open>Accept\<close> header fails with the error
  \<^verbatim>\<open>decode() undefined response type\<close>.
\<close>

theorem C6_decode_by_destination:
  assumes "httpClient c = Some hc" and "RoundTrip E req = Inr resp"
    and "200 \<le> StatusCode resp" and "StatusCode resp \<le> 299"
  shows "Do E jd c req NilDest w = ((Some resp, None, NilDest), w\<lparr>wire := wire w @ [req]\<rparr>)
    \<and> (\<forall>data s. RespBody resp = Inr data \<longrightarrow>
          Do E jd c req (StringPtr s) w
            = ((Some resp, None, StringPtr data), w\<lparr>wire := wire w @ [req]\<rparr>))
    \<and> (\<forall>data x y. RespBody resp = Inr data
            \<and> header_Get (Header req) ''Accept'' = ''application/json'' \<and> jd data x = Inr y \<longrightarrow>
          Do E jd c req (TypedPtr x) w
            = ((Some resp, None, TypedPtr y), w\<lparr>wire := wire w @ [req]\<rparr>))
    \<and> (\<forall>data x e. RespBody resp = Inr data
            \<and> header_Get (Header req) ''Accept'' = ''application/json'' \<and> jd data x = Inl e \<longrightarrow>
          Do E jd c req (TypedPtr x) w
            = ((Some resp, Some (Ext e), TypedPtr x), w\<lparr>wire := wire w @ [req]\<rparr>))
    \<and> (\<forall>x. header_Get (Header req) ''Accept'' \<noteq> ''application/json'' \<longrightarrow>
          Do E jd c req (TypedPtr x) w
            = ((Some resp, Some (ErrorsNew ''decode() undefined response type''), TypedPtr x),
               w\<lparr>wire := wire w @ [req]\<rparr>))"
  by (simp add: Do_2xx [OF assms] decode_def defaultAccept_def)

lemma Accept_post_request:
  "header_Get (Header (post_request E c url r)) ''Accept'' = ''application/json''"
  by (simp add: post_request_def header_Get_def set_headers_Header)

theorem C6_decode_by_destination_witness:
  "Do test_env (json_Decode_SendEmailResponse test_env) test_client
      (post_request test_env test_client ''https://send.api.mailtrap.io/api/send'' req_valid)
      NilDest world1
     = ((Some ok_response, None, NilDest),
        world1\<lparr>wire := [post_request test_env test_client
                           ''https://send.api.mailtrap.io/api/send'' req_valid]\<rparr>)
   \<and> Do test_env (json_Decode_SendEmailResponse test_env) test_client
      (post_request test_env test_client ''https://send.api.mailtrap.io/api/send'' req_valid)
      (StringPtr []) world1
     = ((Some ok_response, None, StringPtr send_ok_body),
        world1\<lparr>wire := [post_request test_env test_client
                           ''https://send.api.mailtrap.io/api/send'' req_valid]\<rparr>)
   \<and> Do test_env (json_Decode_SendEmailResponse test_env) test_client
      (post_request test_env test_client ''https://send.api.mailtrap.io/api/send'' req_valid)
      (TypedPtr zero_SendEmailResponse) world1
     = ((Some ok_response, None,
         TypedPtr \<lparr>Success = True,
                   MessageIDs = Some [''0c7fd939-02cf-11ed-88c2-0a58a9feac02'']\<rparr>),
        world1\<lparr>wire := [post_request test_env test_client
                           ''https://send.api.mailtrap.io/api/send'' req_valid]\<rparr>)
   \<and> Do test_env (json_Decode_SendEmailResponse test_env) test_client plain_request
      (TypedPtr zero_SendEmailResponse) world1
     = ((Some ok_response, Some (ErrorsNew ''decode() undefined response type''),
         TypedPtr zero_SendEmailResponse),
        world1\<lparr>wire := [plain_request]\<rparr>)"
proof -
  let ?req = "post_request test_env test_client ''https://send.api.mailtrap.io/api/send'' req_valid"
  have c: "httpClient test_client = Some \<lparr>Timeout = 30\<rparr>"
    by (simp add: test_client_def)
  have rt: "RoundTrip test_env r = Inr ok_response" for r
    by (simp add: test_env_def ok_response_def)
  have st: "200 \<le> StatusCode ok_response" "StatusCode ok_response \<le> 299"
    by (simp_all add: ok_response_def)
  have b: "RespBody ok_response = Inr send_ok_body"
    by (simp add: ok_response_def)
  have jd: "json_Decode_SendEmailResponse test_env send_ok_body zero_SendEmailResponse
      = Inr \<lparr>Success = True, MessageIDs = Some [''0c7fd939-02cf-11ed-88c2-0a58a9feac02'']\<rparr>"
    by (simp add: test_env_def)
  have na: "header_Get (Header plain_request) ''Accept'' \<noteq> ''application/json''"
    by (simp add: plain_request_def header_Get_def)
  have w: "wire world1 = []"
    by (simp add: world1_def)
  show ?thesis
    using C6_decode_by_destination [OF c rt st, of "json_Decode_SendEmailResponse test_env" ?req world1]
      C6_decode_by_destination [OF c rt st, of "json_Decode_SendEmailResponse test_env"
        plain_request world1]
      b jd na Accept_post_request [of test_env test_client]
    by (simp add: w)
qed

text \<open>
  The error for a typed destination without the JSON \<^verbatim>\<open>Accept\<close> header is not the
  message \<^verbatim>\<open>decode: unsupported response type\<close>.
\<close>

theorem C6_message_counterexample:
  "fst (snd (fst (Do test_env (json_Decode_SendEmailResponse test_env) test_client plain_request
      (TypedPtr zero_SendEmailResponse) world1)))
     = Some (ErrorsNew ''decode() undefined response type'')
   \<and> ErrorsNew ''decode() undefined response type''
       \<noteq> ErrorsNew ''decode: unsupported response type''"
  by (simp add: Do_def test_client_def test_env_def checkResponse_def decode_def Let_def
      plain_request_def header_Get_def defaultAccept_def)


lemma checkResponse_not_2xx:
  assumes "StatusCode r < 200 \<or> 299 < StatusCode r"
  shows "checkResponse E r = Some (ErrResponse \<lparr>Response = r, Message =
      (case RespBody r of Inl e \<Rightarrow> []
       | Inr data \<Rightarrow> if data = [] then []
           else (case json_Unmarshal_ErrorResponse E data [] of
                   (None, m) \<Rightarrow> m | (Some e, m) \<Rightarrow> data))\<rparr>)"
  using assms
  by (auto simp: checkResponse_def Let_def split: sum.splits prod.splits option.splits)

lemma Do_not_2xx:
  assumes "StatusCode r < 200 \<or> 299 < StatusCode r"
    and "httpClient c = Some hc" and "RoundTrip E req = Inr r"
  shows "Do E jd c req v w = ((Some r, checkResponse E r, v), w\<lparr>wire := wire w @ [req]\<rparr>)"
  using assms(2,3) checkResponse_not_2xx [OF assms(1), of E]
  by (simp add: Do_def Let_def)

text \<open>
  C7. A response with a status in 200..299 is no error. A response with any other status
  gives, from \<^verbatim>\<open>checkResponse\<close> and so from \<^verbatim>\<open>Do\<close>, a structured error that
  holds the response itself (status and headers); when the body is not empty and decodes
  as JSON the decoded message is its message, and when the decoding fails the raw body is
  its message.
\<close>

theorem C7_non_2xx_is_structured_error:
  "(200 \<le> StatusCode r \<and> StatusCode r \<le> 299 \<longrightarrow> checkResponse E r = None)
   \<and> (StatusCode r < 200 \<or> 299 < StatusCode r \<longrightarrow>
        (\<exists>m. checkResponse E r = Some (ErrResponse \<lparr>Response = r, Message = m\<rparr>))
        \<and> (RespBody r = Inr data \<and> data \<noteq> []
             \<and> json_Unmarshal_ErrorResponse E data [] = (None, m') \<longrightarrow>
            checkResponse E r = Some (ErrResponse \<lparr>Response = r, Message = m'\<rparr>))
        \<and> (RespBody r = Inr data \<and> data \<noteq> []
             \<and> json_Unmarshal_ErrorResponse E data [] = (Some e, m') \<longrightarrow>
            checkResponse E r = Some (ErrResponse \<lparr>Response = r, Message = data\<rparr>))
        \<and> (httpClient c = Some hc \<and> RoundTrip E req = Inr r \<longrightarrow>
            Do E jd c req v w
              = ((Some r, checkResponse E r, v), w\<lparr>wire := wire w @ [req]\<rparr>)))"
proof (intro conjI impI)
  assume "200 \<le> StatusCode r \<and> StatusCode r \<le> 299"
  then show "checkResponse E r = None"
    by (simp add: checkResponse_2xx)
next
  assume n: "StatusCode r < 200 \<or> 299 < StatusCode r"
  note c = checkResponse_not_2xx [OF n, of E]
  show "\<exists>m. checkResponse E r = Some (ErrResponse \<lparr>Response = r, Message = m\<rparr>)"
    unfolding c by blast
  show "checkResponse E r = Some (ErrResponse \<lparr>Response = r, Message = m'\<rparr>)"
    if "RespBody r = Inr data \<and> data \<noteq> [] \<and> json_Unmarshal_ErrorResponse E data [] = (None, m')"
    unfolding c using that by simp
  show "checkResponse E r = Some (ErrResponse \<lparr>Response = r, Message = data\<rparr>)"
    if "RespBody r = Inr data \<and> data \<noteq> [] \<and> json_Unmarshal_ErrorResponse E data [] = (Some e, m')"
    unfolding c using that by simp
  show "Do E jd c req v w = ((Some r, checkResponse E r, v), w\<lparr>wire := wire w @ [req]\<rparr>)"
    if "httpClient c = Some hc \<and> RoundTrip E req = Inr r"
    using Do_not_2xx [OF n, of c hc E req] that by simp
qed



theorem C7_non_2xx_is_structured_error_witness:
  "checkResponse test_env ok_response = None
   \<and> checkResponse test_env unauthorized_response
       = Some (ErrResponse \<lparr>Response = unauthorized_response, Message = ''Unauthorized''\<rparr>)
   \<and> checkResponse test_env not_found_response
       = Some (ErrResponse \<lparr>Response = not_found_response, Message = ''Not Found''\<rparr>)
   \<and> Do (test_env_answering not_found_response) (json_Decode_SendEmailResponse test_env)
         test_client plain_request (TypedPtr zero_SendEmailResponse) world1
       = ((Some not_found_response,
           Some (ErrResponse \<lparr>Response = not_found_response, Message = ''Not Found''\<rparr>),
           TypedPtr zero_SendEmailResponse), world1\<lparr>wire := [plain_request]\<rparr>)"
proof -
  have 1: "checkResponse test_env ok_response = None"
    using C7_non_2xx_is_structured_error [of ok_response test_env]
    by (simp add: ok_response_def)
  have 2: "checkResponse test_env unauthorized_response
       = Some (ErrResponse \<lparr>Response = unauthorized_response, Message = ''Unauthorized''\<rparr>)"
    using C7_non_2xx_is_structured_error
      [of unauthorized_response test_env error_body "''Unauthorized''"]
    by (simp add: unauthorized_response_def test_env_def error_body_def)
  have 3: "checkResponse test_env not_found_response
       = Some (ErrResponse \<lparr>Response = not_found_response, Message = ''Not Found''\<rparr>)"
    using C7_non_2xx_is_structured_error
      [of not_found_response test_env "''Not Found''" "[]" "ExtError ''invalid character''"]
    by (simp add: not_found_response_def test_env_def error_body_def)
  have 4: "Do (test_env_answering not_found_response) (json_Decode_SendEmailResponse test_env)
         test_client plain_request (TypedPtr zero_SendEmailResponse) world1
       = ((Some not_found_response,
           Some (ErrResponse \<lparr>Response = not_found_response, Message = ''Not Found''\<rparr>),
           TypedPtr zero_SendEmailResponse), world1\<lparr>wire := [plain_request]\<rparr>)"
    using C7_non_2xx_is_structured_error
      [of not_found_response "test_env_answering not_found_response" "''Not Found''" "[]"
          "ExtError ''invalid character''" test_client "\<lparr>Timeout = 30\<rparr>" plain_request
          "json_Decode_SendEmailResponse test_env" "TypedPtr zero_SendEmailResponse" world1]
    by (simp add: world1_def test_env_answering_def test_client_def not_found_response_def
        test_env_def error_body_def)
  from 1 2 3 4 show ?thesis by blast
qed




section \<open>The two sends\<close>









end
